theory Spec2Isabelle
  imports Complex_Main "HOL-Library.Char_ord" "HOL-Library.List_Lexorder"
begin

section \<open>Linearizer: voltage, current, flow\<close>

text \<open>
  The Python floats of the program are modelled by the reals: arithmetic and comparisons
  are exact.  Exceptions are values of the type \<open>py_error\<close>.
\<close>

datatype py_error = ZeroDivisionError

text \<open>
  The module constants \<open>SHUNT_OHMS\<close>, \<open>FLOW_MIN_SCCM\<close> and \<open>FLOW_MAX_SCCM\<close> are read from
  the environment at start-up; the model takes them as a record.
\<close>

record flow_config =
  SHUNT_OHMS :: real
  FLOW_MIN_SCCM :: real
  FLOW_MAX_SCCM :: real

text \<open>\<open>voltage_to_current_ma\<close>: a float division by zero raises in Python.\<close>

definition voltage_to_current_ma :: "real \<Rightarrow> real \<Rightarrow> py_error + real" where
  "voltage_to_current_ma voltage shunt_ohms =
     (if shunt_ohms = 0 then Inl ZeroDivisionError
      else Inr ((voltage / shunt_ohms) * 1000))"

text \<open>\<open>current_to_flow_sccm\<close> (identical in \<open>TestGUI_3F_v5_cl.py\<close> and \<open>TestCO2.py\<close>).\<close>

definition current_to_flow_sccm :: "flow_config \<Rightarrow> real \<Rightarrow> real" where
  "current_to_flow_sccm cfg current_ma =
     (if FLOW_MAX_SCCM cfg \<le> FLOW_MIN_SCCM cfg then 0
      else
        let current_ma = max 4 (min 20 current_ma);
            span = 16
        in FLOW_MIN_SCCM cfg
             + (current_ma - 4) * (FLOW_MAX_SCCM cfg - FLOW_MIN_SCCM cfg) / span)"

text \<open>
  The sample tuple \<open>(flow, current_ma, voltage, status)\<close> that \<open>_flow_take_sample\<close> builds
  from a voltage that was read successfully (the timestamp is left out).  The status
  strings are the ones of the source: \<open>Bajo rango\<close> is the low-range tag, \<open>Alto rango\<close>
  the high-range tag.
\<close>

record flow_sample =
  fs_flow :: real
  fs_current_ma :: real
  fs_voltage :: real
  fs_status :: string

definition flow_take_sample :: "flow_config \<Rightarrow> real \<Rightarrow> py_error + flow_sample" where
  "flow_take_sample cfg voltage =
     (case voltage_to_current_ma voltage (SHUNT_OHMS cfg) of
        Inl e \<Rightarrow> Inl e
      | Inr current_ma \<Rightarrow>
          let flow = current_to_flow_sccm cfg current_ma;
              status = (if current_ma < 3.8 then ''Bajo rango''
                        else if current_ma > 20.5 then ''Alto rango''
                        else ''OK'')
          in Inr \<lparr>fs_flow = flow, fs_current_ma = current_ma,
                  fs_voltage = voltage, fs_status = status\<rparr>)"

section \<open>Time and calendars\<close>

text \<open>
  A naive local \<open>datetime\<close> is modelled by the number of seconds since midnight of day 0,
  a real because ticks fall between whole seconds.  Adding a \<open>timedelta\<close> of \<open>d\<close> seconds
  is \<open>t + d\<close> and comparing two datetimes is comparing the reals.  The calendar day
  \<open>date_of t\<close> stands for the dictionary key \<open>ymd(t.date())\<close>, a string that determines the
  day and is determined by it.
\<close>

type_synonym datetime = real

definition date_of :: "datetime \<Rightarrow> int" where
  "date_of t = \<lfloor>t\<rfloor> div 86400"

definition hour_of :: "datetime \<Rightarrow> nat" where
  "hour_of t = nat (\<lfloor>t\<rfloor> div 3600 mod 24)"

definition minute_of :: "datetime \<Rightarrow> nat" where
  "minute_of t = nat (\<lfloor>t\<rfloor> div 60 mod 60)"

text \<open>A number below 100 printed with two digits, as \<open>%H\<close> and \<open>%M\<close> do.\<close>

definition two_digits :: "nat \<Rightarrow> string" where
  "two_digits n = [''0123456789'' ! (n div 10), ''0123456789'' ! (n mod 10)]"

text \<open>\<open>t.strftime("%H:%M")\<close>.\<close>

definition strftime_HM :: "datetime \<Rightarrow> string" where
  "strftime_HM t = two_digits (hour_of t) @ '':'' @ two_digits (minute_of t)"

text \<open>
  \<open>t.strftime("%Y-%m-%d %H:%M")\<close>: the day and the time of day to the minute.  Two such
  strings are equal iff the pairs are.
\<close>

definition strftime_Ymd_HM :: "datetime \<Rightarrow> int \<times> string" where
  "strftime_Ymd_HM t = (date_of t, strftime_HM t)"

text \<open>
  A calendar event is the dictionary \<open>{"time": ..., "value": ...}\<close> that \<open>add_event\<close>,
  \<open>edit_event\<close> and \<open>_events_from_rows\<close> build; the time is kept as the string it is, and
  strings are compared as Python compares them, character by character.  A calendar maps
  a day to its list of events, in the order of insertion.
\<close>

record 'v event =
  ev_time :: string
  ev_value :: 'v

type_synonym 'v calendar = "int \<Rightarrow> 'v event list option"

text \<open>\<open>events_dict.get(key, [])\<close> for the key of a day.\<close>

definition day_events :: "'v calendar \<Rightarrow> int \<Rightarrow> 'v event list" where
  "day_events events_dict key = (case events_dict key of None \<Rightarrow> [] | Some flist \<Rightarrow> flist)"

text \<open>
  \<open>sp_from_date_calendar\<close>.  The result is optional as in Python, where the default of the
  caller is \<open>None\<close>.  An empty or missing dictionary has no list for any day, which the second
  test of the source answers with the default as the first one does.
\<close>

definition sp_from_date_calendar :: "'v calendar \<Rightarrow> datetime \<Rightarrow> 'v option \<Rightarrow> 'v option" where
  "sp_from_date_calendar events_dict t default_value =
     (let flist = day_events events_dict (date_of t)
      in if flist = [] then default_value
         else
           let hhmm_now = strftime_HM t;
               todays = filter (\<lambda>e. ev_time e \<noteq> [] \<and> ev_time e \<le> hhmm_now) flist
           in if todays = [] then default_value
              else
                let todays = sort_key ev_time todays
                in Some (ev_value (last todays)))"

text \<open>\<open>nut_fire_for_minute\<close>.\<close>

definition nut_fire_for_minute :: "'v calendar \<Rightarrow> datetime \<Rightarrow> 'v list" where
  "nut_fire_for_minute events_dict t =
     (let flist = day_events events_dict (date_of t)
      in if flist = [] then []
         else
           let hhmm_now = strftime_HM t
           in map ev_value (filter (\<lambda>e. ev_time e = hhmm_now) flist))"

section \<open>The fermenter panel\<close>

text \<open>
  The calls a panel makes to the hardware layer are recorded in the order they are made.
  The stepper is always the panel's own, so its name is left out.
\<close>

datatype hw_call = Relay_on nat | Relay_off nat | Start_stepper real | Stop_stepper

text \<open>
  The automation state of \<open>FermenterPanel\<close>.  \<open>t_temp\<close> is the attribute \<open>t\<close>, \<open>nut_led_on\<close> is
  \<open>_nut_led_on\<close> and \<open>last_min\<close> is \<open>_last_min\<close>; the widgets and the CSV settings are not part
  of it.
\<close>

record panel =
  t_temp :: real
  sp :: real
  band :: real
  manual_mode :: bool
  cold_in :: bool
  hot_in :: bool
  cal_sp :: "real calendar"
  cal_nut :: "real calendar"
  nut_running_until :: "datetime option"
  nut_led_on :: bool
  last_min :: "(int \<times> string) option"
  freq_nut :: real
  manual_nut_on :: bool
  relay_cold :: nat
  relay_hot :: nat
  hw_calls :: "hw_call list"

text \<open>
  The state that \<open>__init__\<close> sets up, for a first temperature and the two relay pins.  The
  record of hardware calls starts after the set-up of the pins.
\<close>

definition new_panel :: "real \<Rightarrow> nat \<Rightarrow> nat \<Rightarrow> panel" where
  "new_panel t0 pin_cold pin_hot =
     \<lparr>t_temp = t0, sp = 20, band = 0.5, manual_mode = False,
      cold_in = False, hot_in = False,
      cal_sp = Map.empty, cal_nut = Map.empty,
      nut_running_until = None, nut_led_on = False, last_min = None,
      freq_nut = 8000, manual_nut_on = False,
      relay_cold = pin_cold, relay_hot = pin_hot, hw_calls = []\<rparr>"

definition apply_relays :: "panel \<Rightarrow> panel" where
  "apply_relays s =
     s\<lparr>hw_calls := hw_calls s @
         [if cold_in s then Relay_on (relay_cold s) else Relay_off (relay_cold s),
          if hot_in s then Relay_on (relay_hot s) else Relay_off (relay_hot s)]\<rparr>"

definition can_force :: "panel \<Rightarrow> bool" where
  "can_force s = manual_mode s"

definition forzar_frio :: "panel \<Rightarrow> panel" where
  "forzar_frio s =
     (if \<not> can_force s then s
      else apply_relays (s\<lparr>cold_in := True, hot_in := False\<rparr>))"

definition forzar_caliente :: "panel \<Rightarrow> panel" where
  "forzar_caliente s =
     (if \<not> can_force s then s
      else apply_relays (s\<lparr>hot_in := True, cold_in := False\<rparr>))"

definition cerrar_todo :: "panel \<Rightarrow> panel" where
  "cerrar_todo s = apply_relays (s\<lparr>cold_in := False, hot_in := False\<rparr>)"

text \<open>\<open>_apply_nutricion_state\<close>: the stepper is started or stopped on a change only.\<close>

definition apply_nutricion_state :: "bool \<Rightarrow> panel \<Rightarrow> panel" where
  "apply_nutricion_state should_run s =
     (let s1 = (if should_run \<and> \<not> nut_led_on s
                  then s\<lparr>hw_calls := hw_calls s @ [Start_stepper (freq_nut s)]\<rparr>
                else if \<not> should_run \<and> nut_led_on s
                  then s\<lparr>hw_calls := hw_calls s @ [Stop_stepper]\<rparr>
                else s)
      in s1\<lparr>nut_led_on := should_run\<rparr>)"

definition stop_all :: "panel \<Rightarrow> panel" where
  "stop_all s =
     apply_relays (apply_nutricion_state False
       (s\<lparr>manual_mode := True, cold_in := False, hot_in := False,
          nut_running_until := None, manual_nut_on := False\<rparr>))"

definition toggle_manual_nut :: "datetime \<Rightarrow> panel \<Rightarrow> panel" where
  "toggle_manual_nut tnow s =
     (let s1 = s\<lparr>manual_nut_on := \<not> manual_nut_on s\<rparr>;
          schedule_active = (case nut_running_until s1 of None \<Rightarrow> False | Some u \<Rightarrow> tnow < u)
      in apply_nutricion_state (schedule_active \<or> manual_nut_on s1) s1)"

text \<open>
  \<open>update_process\<close>, one block of the source after the other.  First the setpoint of the
  calendar, unless the panel is in manual mode.
\<close>

definition calendar_setpoint :: "datetime \<Rightarrow> panel \<Rightarrow> panel" where
  "calendar_setpoint tnow s =
     (if \<not> manual_mode s then
        (case sp_from_date_calendar (cal_sp s) tnow None of
           None \<Rightarrow> s
         | Some sp_cal \<Rightarrow> s\<lparr>sp := sp_cal\<rparr>)
      else s)"

text \<open>The doses of the minute, looked up once per minute.\<close>

definition fire_doses :: "datetime \<Rightarrow> panel \<Rightarrow> panel" where
  "fire_doses tnow s =
     (let current_min = strftime_Ymd_HM tnow
      in if last_min s \<noteq> Some current_min then
           let doses = nut_fire_for_minute (cal_nut s) tnow;
               s1 = (if doses \<noteq> [] then
                       let dur_total = sum_list (filter (\<lambda>d. d > 0) doses)
                       in if dur_total > 0 then
                            s\<lparr>nut_running_until := Some (tnow + dur_total),
                              hw_calls := hw_calls s @ [Start_stepper (freq_nut s)]\<rparr>
                          else s
                     else s)
           in s1\<lparr>last_min := Some current_min\<rparr>
         else s)"

text \<open>The dosing window and the pump.\<close>

definition dosing_window :: "datetime \<Rightarrow> panel \<Rightarrow> panel" where
  "dosing_window tnow s =
     (let schedule_active = (case nut_running_until s of None \<Rightarrow> False | Some u \<Rightarrow> tnow < u);
          s1 = (if schedule_active then s else s\<lparr>nut_running_until := None\<rparr>)
      in apply_nutricion_state (schedule_active \<or> manual_nut_on s1) s1)"

text \<open>The hysteresis control of the two relays, skipped in manual mode.\<close>

definition thermal_control :: "panel \<Rightarrow> panel" where
  "thermal_control s =
     (if \<not> manual_mode s then
        let sp_now = sp s;
            band_now = max 0.05 (band s);
            s1 = (if cold_in s
                    then (if t_temp s \<le> sp_now - band_now then s\<lparr>cold_in := False\<rparr> else s)
                    else (if t_temp s \<ge> sp_now + band_now then s\<lparr>cold_in := True\<rparr> else s));
            s2 = (if hot_in s1
                    then (if t_temp s1 \<ge> sp_now + band_now then s1\<lparr>hot_in := False\<rparr> else s1)
                    else (if t_temp s1 \<le> sp_now - band_now then s1\<lparr>hot_in := True\<rparr> else s1));
            s3 = (if \<not> cold_in s2 \<and> \<not> hot_in s2 then cerrar_todo s2 else s2)
        in apply_relays s3
      else s)"

text \<open>
  A tick at \<open>tnow\<close>.  \<open>t_read\<close> is the temperature acquired in this tick, simulated or read
  from the probe.  The row that the tick appends to the CSV files is modelled with the
  files below.
\<close>

definition update_process :: "datetime \<Rightarrow> real \<Rightarrow> panel \<Rightarrow> panel" where
  "update_process tnow t_read s =
     thermal_control
       ((dosing_window tnow (fire_doses tnow (calendar_setpoint tnow s)))\<lparr>t_temp := t_read\<rparr>)"

text \<open>
  What can happen to a panel: a tick, an edit of a variable or of a calendar by the
  operator, or one of the buttons.
\<close>

datatype command =
    Tick datetime real
  | Set_sp real
  | Set_band real
  | Set_manual_mode bool
  | Set_freq_nut real
  | Set_cal_sp "real calendar"
  | Set_cal_nut "real calendar"
  | Forzar_frio
  | Forzar_caliente
  | Cerrar_todo
  | Stop_all
  | Toggle_manual_nut datetime

fun step :: "panel \<Rightarrow> command \<Rightarrow> panel" where
  "step s (Tick tnow t_read) = update_process tnow t_read s"
| "step s (Set_sp v) = s\<lparr>sp := v\<rparr>"
| "step s (Set_band v) = s\<lparr>band := v\<rparr>"
| "step s (Set_manual_mode b) = s\<lparr>manual_mode := b\<rparr>"
| "step s (Set_freq_nut v) = s\<lparr>freq_nut := v\<rparr>"
| "step s (Set_cal_sp c) = s\<lparr>cal_sp := c\<rparr>"
| "step s (Set_cal_nut c) = s\<lparr>cal_nut := c\<rparr>"
| "step s Forzar_frio = forzar_frio s"
| "step s Forzar_caliente = forzar_caliente s"
| "step s Cerrar_todo = cerrar_todo s"
| "step s Stop_all = stop_all s"
| "step s (Toggle_manual_nut tnow) = toggle_manual_nut tnow s"

definition run :: "panel \<Rightarrow> command list \<Rightarrow> panel" where
  "run s cmds = foldl step s cmds"

text \<open>The invariant of the two relays: never both on.\<close>

definition exclusive :: "panel \<Rightarrow> bool" where
  "exclusive s = (\<not> (cold_in s \<and> hot_in s))"

text \<open>The calls to the stepper among the recorded hardware calls.\<close>

fun is_stepper_call :: "hw_call \<Rightarrow> bool" where
  "is_stepper_call (Start_stepper f) = True"
| "is_stepper_call Stop_stepper = True"
| "is_stepper_call (Relay_on pin) = False"
| "is_stepper_call (Relay_off pin) = False"

definition stepper_calls :: "panel \<Rightarrow> hw_call list" where
  "stepper_calls s = filter is_stepper_call (hw_calls s)"

text \<open>
  The time of day that a string \<open>HH:MM\<close> denotes, in minutes since midnight, and the strings
  that are a time of day written with two digits for the hour and two for the minute.
\<close>

definition digit_value :: "char \<Rightarrow> nat" where
  "digit_value c = of_char c - 48"

fun hhmm_hour :: "string \<Rightarrow> nat" where
  "hhmm_hour (a # b # rest) = 10 * digit_value a + digit_value b"
| "hhmm_hour s = 0"

fun hhmm_minute :: "string \<Rightarrow> nat" where
  "hhmm_minute (a # b # c # d # e # rest) = 10 * digit_value d + digit_value e"
| "hhmm_minute s = 0"

definition minute_of_day :: "string \<Rightarrow> nat" where
  "minute_of_day s = hhmm_hour s * 60 + hhmm_minute s"

definition hhmm_padded :: "string \<Rightarrow> bool" where
  "hhmm_padded s =
     (hhmm_hour s < 24 \<and> hhmm_minute s < 60
      \<and> s = two_digits (hhmm_hour s) @ '':'' @ two_digits (hhmm_minute s))"



section \<open>The temperature probe\<close>

text \<open>
  The part of \<open>Hardware\<close> that \<open>read_temp_ds18b20\<close> uses.  \<open>hw_log\<close> collects the warnings the
  method prints, each with the device it names.
\<close>

datatype log_line = Temp_warning string

record hardware =
  sim :: bool
  ds_devices :: "string list"
  last_temp_error :: bool
  hw_log :: "log_line list"

text \<open>What opening and reading the file \<open>w1_slave\<close> of the device gives.\<close>

datatype w1_read = Unreadable | Lines "string list"

text \<open>\<open>sub in s\<close> for strings.\<close>

fun contains :: "string \<Rightarrow> string \<Rightarrow> bool" where
  "contains sub [] = (sub = [])"
| "contains sub (c # cs) = (take (length sub) (c # cs) = sub \<or> contains sub cs)"

text \<open>\<open>s.split("t=")[-1]\<close>: what follows the last \<open>t=\<close>, or all of \<open>s\<close> if there is none.\<close>

fun split_t_eq_last :: "string \<Rightarrow> string \<Rightarrow> string" where
  "split_t_eq_last piece [] = piece"
| "split_t_eq_last piece [c] = piece @ [c]"
| "split_t_eq_last piece (c # d # cs) =
     (if c = CHR ''t'' \<and> d = CHR ''='' then split_t_eq_last [] cs
      else split_t_eq_last (piece @ [c]) (d # cs))"

text \<open>
  \<open>read_temp_ds18b20\<close>.  \<open>py_float\<close> stands for Python's \<open>float\<close> applied to the stripped
  string, \<open>None\<close> where it raises; \<open>simulated\<close> is the value the simulator branch draws;
  \<open>rd\<close> is the outcome of reading the device file.  Every exception of the \<open>try\<close> block is
  caught by the \<open>except\<close> clause, and the \<open>finally\<close> clause runs after either exit.
\<close>

definition read_temp_ds18b20 ::
  "(string \<Rightarrow> real option) \<Rightarrow> real \<Rightarrow> w1_read \<Rightarrow> nat \<Rightarrow> hardware \<Rightarrow> real \<times> hardware" where
  "read_temp_ds18b20 py_float simulated rd index hw =
     (if sim hw \<or> ds_devices hw = [] then (simulated, hw)
      else
        let index = (if index \<ge> length (ds_devices hw) then length (ds_devices hw) - 1
                     else index);
            dev = ds_devices hw ! index;
            tried = (case rd of
                       Unreadable \<Rightarrow> None
                     | Lines lines \<Rightarrow>
                         if length lines < 2 \<or> \<not> contains ''YES'' (lines ! 0) then None
                         else py_float (split_t_eq_last [] (lines ! 1)))
        in case tried of
             Some temp \<Rightarrow> (temp / 1000, hw\<lparr>last_temp_error := False\<rparr>)
           | None \<Rightarrow>
               let hw1 = (if \<not> last_temp_error hw
                          then hw\<lparr>hw_log := hw_log hw @ [Temp_warning dev],
                                 last_temp_error := True\<rparr>
                          else hw)
               in (20, hw1\<lparr>last_temp_error := False\<rparr>))"

section \<open>The CSV files\<close>

text \<open>
  A file system maps a path to the rows of the file, \<open>None\<close> where no file exists; a file
  of size 0 has no rows.  A row is the list of its cells.  A dictionary row is the list of
  its items in insertion order.  Writes that raise are not modelled: the source reports
  them in a dialog and goes on.  \<open>os.path.getsize\<close> is asked only for a file that exists,
  so its value for a missing one does not matter.
\<close>

type_synonym csv_file = "string list list"
type_synonym file_system = "string \<Rightarrow> csv_file option"
type_synonym dict_row = "(string \<times> string) list"

definition path_exists :: "file_system \<Rightarrow> string \<Rightarrow> bool" where
  "path_exists fs path = (fs path \<noteq> None)"

definition getsize :: "file_system \<Rightarrow> string \<Rightarrow> nat" where
  "getsize fs path = (case fs path of None \<Rightarrow> 0 | Some rows \<Rightarrow> length rows)"

text \<open>
  The block \<open>with open(path, "a") as f\<close>: a \<open>DictWriter\<close> over \<open>fieldnames\<close> writes the header
  if asked to, then the row, a missing field as the empty string.  Opening for append
  creates a missing file.
\<close>

definition dict_writer_append ::
  "string list \<Rightarrow> bool \<Rightarrow> dict_row \<Rightarrow> string \<Rightarrow> file_system \<Rightarrow> file_system" where
  "dict_writer_append fieldnames header row path fs =
     (let old = (case fs path of None \<Rightarrow> [] | Some rows \<Rightarrow> rows);
          data = map (\<lambda>k. case map_of row k of None \<Rightarrow> [] | Some v \<Rightarrow> v) fieldnames
      in fs(path \<mapsto> old @ (if header then [fieldnames] else []) @ [data]))"

definition backup_fields :: "string list" where
  "backup_fields = [''timestamp'', ''fermentador'', ''T'', ''SP'', ''banda'', ''cold'', ''hot'',
                    ''nutricion_activa'', ''freq_nut'']"

text \<open>
  \<open>FermenterPanel._csv_write_row\<close>, for the row built from the panel (its keys are the
  backup fields), the path of the panel's own file and the path of the backup file.
\<close>

definition csv_write_row ::
  "bool \<Rightarrow> string \<Rightarrow> string \<Rightarrow> dict_row \<Rightarrow> file_system \<Rightarrow> file_system" where
  "csv_write_row csv_running ipath bpath row fs =
     (let fs1 = (if csv_running then
                   let cabe = \<not> path_exists fs ipath
                   in dict_writer_append (map fst row) cabe row ipath fs
                 else fs);
          write_header = (\<not> path_exists fs1 bpath \<or> getsize fs1 bpath = 0)
      in dict_writer_append backup_fields write_header row bpath fs1)"

text \<open>\<open>_co2_csv_write_row\<close> of \<open>App\<close> and of \<open>CO2App\<close>, which differ in the keys of the row only.\<close>

definition co2_csv_write_row ::
  "bool \<Rightarrow> string \<Rightarrow> dict_row \<Rightarrow> file_system \<Rightarrow> file_system" where
  "co2_csv_write_row co2_csv_running ipath row fs =
     (if \<not> co2_csv_running then fs
      else
        let header = \<not> path_exists fs ipath
        in dict_writer_append (map fst row) header row ipath fs)"

section \<open>Properties of the linearizer\<close>




text \<open>
  Claim C4.  For every sampled voltage (the shunt resistance being non-zero, so that the
  conversion does not raise), the status tag is computed from the unclamped current, the
  same current that is passed to the flow computation: the tag is \<open>Bajo rango\<close> (low
  range) iff the current is below 3.8 mA, \<open>Alto rango\<close> (high range) iff it is above
  20.5 mA and \<open>OK\<close> otherwise.  A voltage that produces 3.79 mA is tagged low-range
  although the flow is the flow at the clamped current of 4 mA.
\<close>
theorem C4_status_from_unclamped_current:
  assumes "SHUNT_OHMS cfg \<noteq> 0"
  shows "\<exists>s. flow_take_sample cfg voltage = Inr s
           \<and> fs_current_ma s = voltage / SHUNT_OHMS cfg * 1000
           \<and> fs_flow s = current_to_flow_sccm cfg (fs_current_ma s)
           \<and> (fs_status s = ''Bajo rango'' \<longleftrightarrow> fs_current_ma s < 3.8)
           \<and> (fs_status s = ''Alto rango'' \<longleftrightarrow> fs_current_ma s > 20.5)
           \<and> (fs_status s = ''OK'' \<longleftrightarrow> 3.8 \<le> fs_current_ma s \<and> fs_current_ma s \<le> 20.5)
           \<and> (fs_current_ma s = 3.79 \<longrightarrow>
                 fs_status s = ''Bajo rango'' \<and> fs_flow s = current_to_flow_sccm cfg 4)"
  using assms
  by (simp add: flow_take_sample_def voltage_to_current_ma_def Let_def
      current_to_flow_sccm_def)

text \<open>The theorem at 0.55713 V over 147 ohm, which is 3.79 mA.\<close>
theorem C4_status_witness:
  "SHUNT_OHMS \<lparr>SHUNT_OHMS = 147, FLOW_MIN_SCCM = 0, FLOW_MAX_SCCM = 50\<rparr> \<noteq> 0
   \<and> flow_take_sample \<lparr>SHUNT_OHMS = 147, FLOW_MIN_SCCM = 0, FLOW_MAX_SCCM = 50\<rparr> 0.55713
       = Inr \<lparr>fs_flow = 0, fs_current_ma = 3.79, fs_voltage = 0.55713,
              fs_status = ''Bajo rango''\<rparr>"
  using C4_status_from_unclamped_current
          [of "\<lparr>SHUNT_OHMS = 147, FLOW_MIN_SCCM = 0, FLOW_MAX_SCCM = 50\<rparr>" "0.55713"]
  by (simp add: flow_take_sample_def voltage_to_current_ma_def current_to_flow_sccm_def)

section \<open>The two relays are never on together\<close>

lemma apply_relays_flags [simp]:
  "cold_in (apply_relays s) = cold_in s" "hot_in (apply_relays s) = hot_in s"
  "manual_mode (apply_relays s) = manual_mode s"
  by (simp_all add: apply_relays_def)

lemma apply_nutricion_state_flags [simp]:
  "cold_in (apply_nutricion_state b s) = cold_in s"
  "hot_in (apply_nutricion_state b s) = hot_in s"
  "manual_mode (apply_nutricion_state b s) = manual_mode s"
  by (simp_all add: apply_nutricion_state_def Let_def)

lemma calendar_setpoint_flags [simp]:
  "cold_in (calendar_setpoint tnow s) = cold_in s"
  "hot_in (calendar_setpoint tnow s) = hot_in s"
  "manual_mode (calendar_setpoint tnow s) = manual_mode s"
  by (simp_all add: calendar_setpoint_def split: option.splits)

lemma fire_doses_flags [simp]:
  "cold_in (fire_doses tnow s) = cold_in s"
  "hot_in (fire_doses tnow s) = hot_in s"
  "manual_mode (fire_doses tnow s) = manual_mode s"
  by (simp_all add: fire_doses_def Let_def)

lemma dosing_window_flags [simp]:
  "cold_in (dosing_window tnow s) = cold_in s"
  "hot_in (dosing_window tnow s) = hot_in s"
  "manual_mode (dosing_window tnow s) = manual_mode s"
  by (simp_all add: dosing_window_def Let_def)

lemma thermal_control_exclusive:
  "exclusive s \<Longrightarrow> exclusive (thermal_control s)"
  by (auto simp: exclusive_def thermal_control_def cerrar_todo_def Let_def max_def)

lemma update_process_exclusive:
  "exclusive s \<Longrightarrow> exclusive (update_process tnow t_read s)"
  unfolding update_process_def
  by (rule thermal_control_exclusive) (simp add: exclusive_def)

lemma step_exclusive: "exclusive s \<Longrightarrow> exclusive (step s c)"
proof (cases c)
  case (Tick tnow t_read)
  then show "exclusive s \<Longrightarrow> exclusive (step s c)" by (simp add: update_process_exclusive)
qed (auto simp: exclusive_def forzar_frio_def forzar_caliente_def cerrar_todo_def stop_all_def
       toggle_manual_nut_def Let_def)

lemma run_exclusive: "exclusive s \<Longrightarrow> exclusive (run s cmds)"
  unfolding run_def
  by (induction cmds arbitrary: s) (simp_all add: step_exclusive)

text \<open>
  Claim C1.  Whatever the operator and the clock do to a panel after it is created (ticks
  with any temperature, any setpoint and band, edits of the calendars, manual mode switched
  on or off, the forcing buttons, stop-all), the flags \<open>cold_in\<close> and \<open>hot_in\<close> are never
  both true; in particular they are not after a tick.  Temperatures, setpoints and bands
  are reals here.
\<close>
theorem C1_cold_hot_never_both:
  "\<not> (cold_in (run (new_panel t0 pin_cold pin_hot) cmds)
      \<and> hot_in (run (new_panel t0 pin_cold pin_hot) cmds))"
proof -
  have "exclusive (new_panel t0 pin_cold pin_hot)"
    by (simp add: exclusive_def new_panel_def)
  then have "exclusive (run (new_panel t0 pin_cold pin_hot) cmds)"
    by (rule run_exclusive)
  then show ?thesis by (simp add: exclusive_def)
qed

lemmas tick_defs = update_process_def calendar_setpoint_def sp_from_date_calendar_def
  day_events_def fire_doses_def nut_fire_for_minute_def dosing_window_def
  apply_nutricion_state_def thermal_control_def cerrar_todo_def apply_relays_def
  strftime_Ymd_HM_def strftime_HM_def date_of_def hour_of_def minute_of_def two_digits_def

lemma first_tick_cold:
  "update_process 0 21 (new_panel 20 7 8) =
     (new_panel 20 7 8)\<lparr>t_temp := 21, cold_in := True, last_min := Some (0, ''00:00''),
                          hw_calls := [Relay_on 7, Relay_off 8]\<rparr>"
  by (simp add: tick_defs new_panel_def Let_def)

lemma second_tick_hot:
  "update_process 1 19
     ((new_panel 20 7 8)\<lparr>t_temp := 21, cold_in := True, last_min := Some (0, ''00:00''),
                          hw_calls := [Relay_on 7, Relay_off 8]\<rparr>) =
     (new_panel 20 7 8)\<lparr>t_temp := 19, hot_in := True, last_min := Some (0, ''00:00''),
                          hw_calls := [Relay_on 7, Relay_off 8, Relay_off 7, Relay_on 8]\<rparr>"
  by (simp add: tick_defs new_panel_def Let_def)

text \<open>
  A run in which each relay is on at some point: setpoint 20, band 0.5, a tick at 21 degrees
  and a tick at 19 degrees.
\<close>
theorem C1_cold_hot_witness:
  "cold_in (run (new_panel 20 7 8) [Tick 0 21])
   \<and> hot_in (run (new_panel 20 7 8) [Tick 0 21, Tick 1 19])
   \<and> \<not> (cold_in (run (new_panel 20 7 8) [Tick 0 21, Tick 1 19])
          \<and> hot_in (run (new_panel 20 7 8) [Tick 0 21, Tick 1 19]))"
  using C1_cold_hot_never_both [of 20 7 8 "[Tick 0 21, Tick 1 19]"]
  by (simp add: run_def first_tick_cold second_tick_hot)

text \<open>
  Claim C3 as stated fails for close-all: after a tick at 21 degrees the panel is not in
  manual mode and cools; \<open>cerrar_todo\<close> is not rejected and switches the cooling off.
\<close>
theorem C3_cerrar_todo_counterexample:
  "\<not> can_force (update_process 0 21 (new_panel 20 7 8))
   \<and> cold_in (update_process 0 21 (new_panel 20 7 8))
   \<and> \<not> cold_in (cerrar_todo (update_process 0 21 (new_panel 20 7 8)))"
  unfolding first_tick_cold
  by (simp add: can_force_def cerrar_todo_def new_panel_def)

text \<open>
  Claim C3, amended.  When the manual-override flag is not active, force cold-only and
  force hot-only are rejected and leave the panel, with its cold and hot flags, unchanged.
  Close-all is not guarded by the flag: it switches both actuators off in either mode, and
  leaves the mode as it is.
\<close>
theorem C3_forcing_guarded_close_all_not:
  "(\<not> can_force s \<longrightarrow> forzar_frio s = s \<and> forzar_caliente s = s)
   \<and> \<not> cold_in (cerrar_todo s) \<and> \<not> hot_in (cerrar_todo s)
   \<and> manual_mode (cerrar_todo s) = manual_mode s"
  by (simp add: forzar_frio_def forzar_caliente_def cerrar_todo_def)

text \<open>The amended claim at the cooling panel of the counterexample.\<close>
theorem C3_forcing_witness:
  "\<not> can_force (update_process 0 21 (new_panel 20 7 8))
   \<and> forzar_frio (update_process 0 21 (new_panel 20 7 8))
       = update_process 0 21 (new_panel 20 7 8)
   \<and> forzar_caliente (update_process 0 21 (new_panel 20 7 8))
       = update_process 0 21 (new_panel 20 7 8)
   \<and> \<not> cold_in (cerrar_todo (update_process 0 21 (new_panel 20 7 8)))"
proof -
  have h: "\<not> can_force (update_process 0 21 (new_panel 20 7 8))"
    unfolding first_tick_cold by (simp add: can_force_def new_panel_def)
  from h C3_forcing_guarded_close_all_not [of "update_process 0 21 (new_panel 20 7 8)"]
  show ?thesis by simp
qed

section \<open>The temperature probe warns at every failed read\<close>

lemma read_temp_ds18b20_clears_flag:
  "\<not> sim hw \<Longrightarrow> ds_devices hw \<noteq> [] \<Longrightarrow>
   \<not> last_temp_error (snd (read_temp_ds18b20 py_float simulated rd index hw))"
  by (simp add: read_temp_ds18b20_def Let_def split: option.splits)

lemma read_temp_ds18b20_unreadable:
  "\<not> sim hw \<Longrightarrow> ds_devices hw \<noteq> [] \<Longrightarrow> \<not> last_temp_error hw \<Longrightarrow>
   read_temp_ds18b20 py_float simulated Unreadable index hw =
     (20, hw\<lparr>hw_log := hw_log hw @
              [Temp_warning (ds_devices hw ! (if index \<ge> length (ds_devices hw)
                                             then length (ds_devices hw) - 1 else index))],
            last_temp_error := False\<rparr>)"
  by (simp add: read_temp_ds18b20_def Let_def)

lemma read_temp_ds18b20_bad_lines:
  "\<not> sim hw \<Longrightarrow> ds_devices hw \<noteq> [] \<Longrightarrow> \<not> last_temp_error hw \<Longrightarrow>
   length lines < 2 \<or> \<not> contains ''YES'' (lines ! 0) \<Longrightarrow>
   read_temp_ds18b20 py_float simulated (Lines lines) index hw =
     (20, hw\<lparr>hw_log := hw_log hw @
              [Temp_warning (ds_devices hw ! (if index \<ge> length (ds_devices hw)
                                             then length (ds_devices hw) - 1 else index))],
            last_temp_error := False\<rparr>)"
  by (simp add: read_temp_ds18b20_def Let_def)

text \<open>
  So a read on real hardware always leaves the flag cleared, and a failing read that finds
  it cleared returns 20 degrees and prints the warning: every failing read does.
\<close>

text \<open>
  Claim C2 at two consecutive failing reads of the one probe of a panel on real hardware,
  the first unreadable, the second with a bad CRC line: each returns the fallback of 20
  degrees, and each prints the warning.  The claim has the second one silent; the
  \<open>finally\<close> clause clears the flag that the \<open>except\<close> clause has just set.
\<close>
theorem C2_second_failure_warns_again:
  "fst (read_temp_ds18b20 (\<lambda>s. None) 0 Unreadable 0
          \<lparr>sim = False, ds_devices = [''28-01''], last_temp_error = False, hw_log = []\<rparr>) = 20
   \<and> hw_log (snd (read_temp_ds18b20 (\<lambda>s. None) 0 Unreadable 0
          \<lparr>sim = False, ds_devices = [''28-01''], last_temp_error = False, hw_log = []\<rparr>))
       = [Temp_warning ''28-01'']
   \<and> fst (read_temp_ds18b20 (\<lambda>s. None) 0 (Lines [''4b 46 : crc=1c NO'', ''4b 46 t=85000''])  0
          (snd (read_temp_ds18b20 (\<lambda>s. None) 0 Unreadable 0
            \<lparr>sim = False, ds_devices = [''28-01''], last_temp_error = False, hw_log = []\<rparr>))) = 20
   \<and> hw_log (snd (read_temp_ds18b20 (\<lambda>s. None) 0 (Lines [''4b 46 : crc=1c NO'', ''4b 46 t=85000'']) 0
          (snd (read_temp_ds18b20 (\<lambda>s. None) 0 Unreadable 0
            \<lparr>sim = False, ds_devices = [''28-01''], last_temp_error = False, hw_log = []\<rparr>))))
       = [Temp_warning ''28-01'', Temp_warning ''28-01'']"
  by (simp add: read_temp_ds18b20_def Let_def)

lemma good_read:
  "read_temp_ds18b20 (\<lambda>s. if s = ''21500'' then Some 21500 else None) 0
     (Lines [''4b 46 : crc=1c YES'', ''4b 46 t=21500'']) 0
     \<lparr>sim = False, ds_devices = [''28-01''], last_temp_error = False, hw_log = []\<rparr>
   = (21.5, \<lparr>sim = False, ds_devices = [''28-01''], last_temp_error = False, hw_log = []\<rparr>)"
  by (simp add: read_temp_ds18b20_def Let_def)

section \<open>Headers of the CSV files\<close>

lemma dict_writer_append_file:
  "dict_writer_append fieldnames header row path fs path =
     Some ((case fs path of None \<Rightarrow> [] | Some rows \<Rightarrow> rows)
           @ (if header then [fieldnames] else [])
           @ [map (\<lambda>k. case map_of row k of None \<Rightarrow> [] | Some v \<Rightarrow> v) fieldnames])"
  by (simp add: dict_writer_append_def Let_def)

lemma dict_writer_append_other:
  "p \<noteq> path \<Longrightarrow> dict_writer_append fieldnames header row path fs p = fs p"
  by (simp add: dict_writer_append_def Let_def)

lemma csv_write_row_backup_file:
  assumes "ipath \<noteq> bpath"
  shows "csv_write_row csv_running ipath bpath row fs bpath =
     Some ((case fs bpath of None \<Rightarrow> [] | Some rows \<Rightarrow> rows)
           @ (if fs bpath = None \<or> fs bpath = Some [] then [backup_fields] else [])
           @ [map (\<lambda>k. case map_of row k of None \<Rightarrow> [] | Some v \<Rightarrow> v) backup_fields])"
  using assms
  by (auto simp: csv_write_row_def dict_writer_append_def path_exists_def getsize_def Let_def
      split: option.splits)

lemma csv_write_row_own_file:
  assumes "ipath \<noteq> bpath"
  shows "csv_write_row True ipath bpath row fs ipath =
     Some ((case fs ipath of None \<Rightarrow> [] | Some rows \<Rightarrow> rows)
           @ (if fs ipath = None then [map fst row] else [])
           @ [map (\<lambda>k. case map_of row k of None \<Rightarrow> [] | Some v \<Rightarrow> v) (map fst row)])"
  using assms
  by (simp add: csv_write_row_def dict_writer_append_def path_exists_def Let_def)

lemma co2_csv_write_row_file:
  "co2_csv_write_row True ipath row fs ipath =
     Some ((case fs ipath of None \<Rightarrow> [] | Some rows \<Rightarrow> rows)
           @ (if fs ipath = None then [map fst row] else [])
           @ [map (\<lambda>k. case map_of row k of None \<Rightarrow> [] | Some v \<Rightarrow> v) (map fst row)])"
  by (simp add: co2_csv_write_row_def dict_writer_append_def path_exists_def Let_def)

text \<open>
  A first append to files that do not exist writes the header and the row, a second one
  the row alone, in the panel's own file and in the backup file.
\<close>

lemma csv_write_row_twice:
  assumes "ipath \<noteq> bpath" "fs ipath = None" "fs bpath = None"
  shows "csv_write_row True ipath bpath row2 (csv_write_row True ipath bpath row1 fs) ipath =
           Some [map fst row1,
                 map (\<lambda>k. case map_of row1 k of None \<Rightarrow> [] | Some v \<Rightarrow> v) (map fst row1),
                 map (\<lambda>k. case map_of row2 k of None \<Rightarrow> [] | Some v \<Rightarrow> v) (map fst row2)]"
    and "csv_write_row True ipath bpath row2 (csv_write_row True ipath bpath row1 fs) bpath =
           Some [backup_fields,
                 map (\<lambda>k. case map_of row1 k of None \<Rightarrow> [] | Some v \<Rightarrow> v) backup_fields,
                 map (\<lambda>k. case map_of row2 k of None \<Rightarrow> [] | Some v \<Rightarrow> v) backup_fields]"
  using assms
  by (simp_all add: csv_write_row_own_file csv_write_row_backup_file)

text \<open>
  Claim C9 at files that exist and are empty: the backup file gets its header before the
  row, the panel's own file and the CO2 file get the row alone, since their writers test
  only whether the file exists.
\<close>
theorem C9_empty_instrument_file_gets_no_header:
  "csv_write_row True ''F1.csv'' ''backup_global.csv''
     [(''timestamp'', ''2026-01-01 09:00:00''), (''fermentador'', ''F1''), (''T'', ''21.5''),
      (''SP'', ''20.00''), (''banda'', ''0.50''), (''cold'', ''1''), (''hot'', ''0''),
      (''nutricion_activa'', ''0''), (''freq_nut'', ''8000.0'')]
     ((\<lambda>p. None)(''F1.csv'' \<mapsto> [], ''backup_global.csv'' \<mapsto> [])) ''F1.csv''
   = Some [[''2026-01-01 09:00:00'', ''F1'', ''21.5'', ''20.00'', ''0.50'', ''1'', ''0'', ''0'',
            ''8000.0'']]
   \<and> csv_write_row True ''F1.csv'' ''backup_global.csv''
     [(''timestamp'', ''2026-01-01 09:00:00''), (''fermentador'', ''F1''), (''T'', ''21.5''),
      (''SP'', ''20.00''), (''banda'', ''0.50''), (''cold'', ''1''), (''hot'', ''0''),
      (''nutricion_activa'', ''0''), (''freq_nut'', ''8000.0'')]
     ((\<lambda>p. None)(''F1.csv'' \<mapsto> [], ''backup_global.csv'' \<mapsto> [])) ''backup_global.csv''
   = Some [[''timestamp'', ''fermentador'', ''T'', ''SP'', ''banda'', ''cold'', ''hot'',
            ''nutricion_activa'', ''freq_nut''],
           [''2026-01-01 09:00:00'', ''F1'', ''21.5'', ''20.00'', ''0.50'', ''1'', ''0'', ''0'',
            ''8000.0'']]
   \<and> co2_csv_write_row True ''F1_co2.csv''
     [(''timestamp'', ''2026-01-01 09:00:00''), (''fermentador'', ''F1''),
      (''flow_sccm'', ''12.5000''), (''status'', ''OK'')]
     ((\<lambda>p. None)(''F1_co2.csv'' \<mapsto> [])) ''F1_co2.csv''
   = Some [[''2026-01-01 09:00:00'', ''F1'', ''12.5000'', ''OK'']]"
  by (simp add: csv_write_row_def co2_csv_write_row_def dict_writer_append_def
      path_exists_def getsize_def backup_fields_def Let_def)

text \<open>
  The same input once more: what the panel's own file holds afterwards is not a header
  followed by the row, which is what the backup file holds.
\<close>
theorem C9_empty_files_witness:
  "csv_write_row True ''F1.csv'' ''backup_global.csv''
     [(''timestamp'', ''2026-01-01 09:00:00''), (''fermentador'', ''F1''), (''T'', ''21.5''),
      (''SP'', ''20.00''), (''banda'', ''0.50''), (''cold'', ''1''), (''hot'', ''0''),
      (''nutricion_activa'', ''0''), (''freq_nut'', ''8000.0'')]
     ((\<lambda>p. None)(''F1.csv'' \<mapsto> [], ''backup_global.csv'' \<mapsto> [])) ''F1.csv''
   \<noteq> csv_write_row True ''F1.csv'' ''backup_global.csv''
     [(''timestamp'', ''2026-01-01 09:00:00''), (''fermentador'', ''F1''), (''T'', ''21.5''),
      (''SP'', ''20.00''), (''banda'', ''0.50''), (''cold'', ''1''), (''hot'', ''0''),
      (''nutricion_activa'', ''0''), (''freq_nut'', ''8000.0'')]
     ((\<lambda>p. None)(''F1.csv'' \<mapsto> [], ''backup_global.csv'' \<mapsto> [])) ''backup_global.csv''"
  using C9_empty_instrument_file_gets_no_header by simp

section \<open>The value of a schedule at a time\<close>





text \<open>
  On times written with two digits for the hour and two for the minute, as \<open>strftime\<close>
  writes the time of a tick, the order of the strings is the order of the times of day.
\<close>

lemma digit_char_code:
  assumes "a < 10"
  shows "of_char (''0123456789'' ! a) = 48 + a"
proof -
  from assms have "a = 0 \<or> a = 1 \<or> a = 2 \<or> a = 3 \<or> a = 4 \<or> a = 5 \<or> a = 6 \<or> a = 7 \<or> a = 8 \<or> a = 9"
    by arith
  then show ?thesis by (elim disjE) simp_all
qed

lemma digit_char_less:
  "a < 10 \<Longrightarrow> b < 10 \<Longrightarrow> (''0123456789'' ! a < ''0123456789'' ! b) = (a < b)"
  by (simp add: less_char_def digit_char_code)

lemma digit_char_eq:
  assumes "a < 10" "b < 10"
  shows "(''0123456789'' ! a = ''0123456789'' ! b) = (a = b)"
proof
  assume "''0123456789'' ! a = ''0123456789'' ! b"
  then have "(of_char (''0123456789'' ! a) :: nat) = of_char (''0123456789'' ! b)" by simp
  then show "a = b" using assms by (simp add: digit_char_code)
qed simp

lemma less_by_digits:
  fixes n1 n2 :: nat
  shows "(n1 < n2) = (n1 div 10 < n2 div 10 \<or> n1 div 10 = n2 div 10 \<and> n1 mod 10 < n2 mod 10)"
proof -
  define a1 b1 a2 b2 where "a1 = n1 div 10" and "b1 = n1 mod 10"
    and "a2 = n2 div 10" and "b2 = n2 mod 10"
  have b: "b1 < 10" "b2 < 10"
    by (simp_all add: b1_def b2_def)
  have "(10 * a1 + b1 < 10 * a2 + b2) = (a1 < a2 \<or> a1 = a2 \<and> b1 < b2)"
    using b by arith
  then show ?thesis
    unfolding a1_def b1_def a2_def b2_def by simp
qed

lemma eq_by_digits:
  fixes n1 n2 :: nat
  shows "(n1 = n2) = (n1 div 10 = n2 div 10 \<and> n1 mod 10 = n2 mod 10)"
proof
  assume "n1 div 10 = n2 div 10 \<and> n1 mod 10 = n2 mod 10"
  then show "n1 = n2" by (metis div_mult_mod_eq)
qed simp

lemma two_digits_le_iff:
  assumes "n1 < 100" "n2 < 100"
  shows "(two_digits n1 @ r1 \<le> two_digits n2 @ r2) = (n1 < n2 \<or> n1 = n2 \<and> r1 \<le> r2)"
proof -
  have d: "n1 div 10 < 10" "n1 mod 10 < 10" "n2 div 10 < 10" "n2 mod 10 < 10"
    using assms by simp_all
  have "(two_digits n1 @ r1 \<le> two_digits n2 @ r2)
      = (n1 div 10 < n2 div 10 \<or> n1 div 10 = n2 div 10 \<and>
          (n1 mod 10 < n2 mod 10 \<or> n1 mod 10 = n2 mod 10 \<and> r1 \<le> r2))"
    by (simp add: two_digits_def digit_char_less [OF d(1) d(3)] digit_char_less [OF d(2) d(4)]
        digit_char_eq [OF d(1) d(3)] digit_char_eq [OF d(2) d(4)])
  also have "\<dots> = (n1 < n2 \<or> n1 = n2 \<and> r1 \<le> r2)"
    unfolding less_by_digits [of n1 n2] eq_by_digits [of n1 n2] by blast
  finally show ?thesis .
qed

lemma hhmm_le_iff:
  assumes "h1 < 24" "m1 < 60" "h2 < 24" "m2 < 60"
  shows "(two_digits h1 @ '':'' @ two_digits m1 \<le> two_digits h2 @ '':'' @ two_digits m2)
          = (h1 * 60 + m1 \<le> h2 * 60 + m2)"
proof -
  have m: "(two_digits m1 \<le> two_digits m2) = (m1 \<le> m2)"
    using two_digits_le_iff [of m1 m2 "[]" "[]"] assms by (simp add: le_less)
  have "(two_digits h1 @ '':'' @ two_digits m1 \<le> two_digits h2 @ '':'' @ two_digits m2)
      = (h1 < h2 \<or> h1 = h2 \<and> m1 \<le> m2)"
    using assms by (simp add: two_digits_le_iff m)
  also have "\<dots> = (h1 * 60 + m1 \<le> h2 * 60 + m2)"
    using assms by arith
  finally show ?thesis .
qed

lemma strftime_HM_format:
  "strftime_HM t = two_digits (hour_of t) @ '':'' @ two_digits (minute_of t)"
  "hour_of t < 24" "minute_of t < 60"
  by (simp_all add: strftime_HM_def hour_of_def minute_of_def)

lemma event_time_le_now_iff:
  assumes "h < 24" "m < 60"
  shows "(two_digits h @ '':'' @ two_digits m \<le> strftime_HM t)
          = (h * 60 + m \<le> hour_of t * 60 + minute_of t)"
  unfolding strftime_HM_format(1)
  by (rule hhmm_le_iff [OF assms strftime_HM_format(2,3)])


text \<open>
  So on a day whose events all have such times, the latest event by strings is the latest
  event by time of day.
\<close>

lemma digit_value_digit_char: "a < 10 \<Longrightarrow> digit_value (''0123456789'' ! a) = a"
  by (simp add: digit_value_def digit_char_code)

lemma minute_of_day_format:
  assumes "h < 100" "m < 100"
  shows "hhmm_hour (two_digits h @ '':'' @ two_digits m) = h"
    and "hhmm_minute (two_digits h @ '':'' @ two_digits m) = m"
    and "minute_of_day (two_digits h @ '':'' @ two_digits m) = h * 60 + m"
proof -
  have d: "h div 10 < 10" "h mod 10 < 10" "m div 10 < 10" "m mod 10 < 10"
    using assms by simp_all
  show "hhmm_hour (two_digits h @ '':'' @ two_digits m) = h"
    by (simp add: two_digits_def digit_value_digit_char d)
  moreover show "hhmm_minute (two_digits h @ '':'' @ two_digits m) = m"
    by (simp add: two_digits_def digit_value_digit_char d)
  ultimately show "minute_of_day (two_digits h @ '':'' @ two_digits m) = h * 60 + m"
    by (simp add: minute_of_day_def)
qed

lemma hhmm_padded_le_iff:
  assumes "hhmm_padded s1" "hhmm_padded s2"
  shows "(s1 \<le> s2) = (minute_of_day s1 \<le> minute_of_day s2)"
proof -
  from assms have b: "hhmm_hour s1 < 24" "hhmm_minute s1 < 60" "hhmm_hour s2 < 24" "hhmm_minute s2 < 60"
    and s1: "s1 = two_digits (hhmm_hour s1) @ '':'' @ two_digits (hhmm_minute s1)"
    and s2: "s2 = two_digits (hhmm_hour s2) @ '':'' @ two_digits (hhmm_minute s2)"
    by (simp_all add: hhmm_padded_def)
  have "(s1 \<le> s2) = (two_digits (hhmm_hour s1) @ '':'' @ two_digits (hhmm_minute s1)
                      \<le> two_digits (hhmm_hour s2) @ '':'' @ two_digits (hhmm_minute s2))"
    using s1 s2 by simp
  also have "\<dots> = (hhmm_hour s1 * 60 + hhmm_minute s1 \<le> hhmm_hour s2 * 60 + hhmm_minute s2)"
    by (rule hhmm_le_iff [OF b])
  finally show ?thesis by (simp add: minute_of_day_def)
qed

lemma strftime_HM_padded: "hhmm_padded (strftime_HM t)"
proof -
  have b: "hour_of t < 100" "minute_of t < 100"
    using strftime_HM_format(2,3) [of t] by simp_all
  show ?thesis
    unfolding hhmm_padded_def strftime_HM_format(1) minute_of_day_format(1,2) [OF b]
    using strftime_HM_format(2,3) [of t] by simp
qed

lemma minute_of_day_strftime_HM:
  "minute_of_day (strftime_HM t) = hour_of t * 60 + minute_of t"
proof -
  have b: "hour_of t < 100" "minute_of t < 100"
    using strftime_HM_format(2,3) [of t] by simp_all
  show ?thesis
    unfolding strftime_HM_format(1) by (rule minute_of_day_format(3) [OF b])
qed




lemma hhmm_padded_eq_now_iff:
  assumes "hhmm_padded s"
  shows "(s = strftime_HM t) = (minute_of_day s = hour_of t * 60 + minute_of t)"
proof -
  have "(s = strftime_HM t) = (s \<le> strftime_HM t \<and> strftime_HM t \<le> s)"
    by auto
  also have "\<dots> = (minute_of_day s = hour_of t * 60 + minute_of t)"
    using hhmm_padded_le_iff [OF assms strftime_HM_padded [of t]]
      hhmm_padded_le_iff [OF strftime_HM_padded [of t] assms]
    by (auto simp: minute_of_day_strftime_HM)
  finally show ?thesis .
qed


lemma clock_1400: "date_of 50400 = 0" "strftime_HM 50400 = ''14:00''"
  by (simp_all add: strftime_HM_def date_of_def hour_of_def minute_of_def two_digits_def)





text \<open>
  A time that is not written with two digits for the hour is outside that format, and is
  compared as the string it is: an event entered as \<open>8:00\<close> is after \<open>14:00\<close> in the order of
  strings, and no tick of the day finds it.
\<close>

lemma unpadded_time_compared_as_string:
  "\<not> hhmm_padded ''8:00''"
  "sp_from_date_calendar
     ((\<lambda>d. None)(0 \<mapsto> [\<lparr>ev_time = ''8:00'', ev_value = 20::real\<rparr>])) 50400 None = None"
  by (simp_all add: hhmm_padded_def digit_value_def sp_from_date_calendar_def day_events_def
      clock_1400)

section \<open>What a tick does to the dosing state\<close>

lemma apply_relays_dosing [simp]:
  "nut_running_until (apply_relays s) = nut_running_until s"
  "nut_led_on (apply_relays s) = nut_led_on s"
  "last_min (apply_relays s) = last_min s"
  "manual_nut_on (apply_relays s) = manual_nut_on s"
  "cal_nut (apply_relays s) = cal_nut s"
  "stepper_calls (apply_relays s) = stepper_calls s"
  by (simp_all add: apply_relays_def stepper_calls_def)

lemma cerrar_todo_dosing [simp]:
  "nut_running_until (cerrar_todo s) = nut_running_until s"
  "nut_led_on (cerrar_todo s) = nut_led_on s"
  "last_min (cerrar_todo s) = last_min s"
  "manual_nut_on (cerrar_todo s) = manual_nut_on s"
  "cal_nut (cerrar_todo s) = cal_nut s"
  "stepper_calls (cerrar_todo s) = stepper_calls s"
  by (simp_all add: cerrar_todo_def stepper_calls_def apply_relays_def)

lemma stepper_calls_updates [simp]:
  "stepper_calls (s\<lparr>cold_in := c\<rparr>) = stepper_calls s"
  "stepper_calls (s\<lparr>hot_in := h\<rparr>) = stepper_calls s"
  "stepper_calls (s\<lparr>t_temp := x\<rparr>) = stepper_calls s"
  "stepper_calls (s\<lparr>sp := v\<rparr>) = stepper_calls s"
  by (simp_all add: stepper_calls_def)

lemma thermal_control_dosing [simp]:
  "nut_running_until (thermal_control s) = nut_running_until s"
  "nut_led_on (thermal_control s) = nut_led_on s"
  "last_min (thermal_control s) = last_min s"
  "manual_nut_on (thermal_control s) = manual_nut_on s"
  "cal_nut (thermal_control s) = cal_nut s"
  "stepper_calls (thermal_control s) = stepper_calls s"
  by (simp_all add: thermal_control_def Let_def)

lemma calendar_setpoint_dosing [simp]:
  "nut_running_until (calendar_setpoint tnow s) = nut_running_until s"
  "nut_led_on (calendar_setpoint tnow s) = nut_led_on s"
  "last_min (calendar_setpoint tnow s) = last_min s"
  "manual_nut_on (calendar_setpoint tnow s) = manual_nut_on s"
  "cal_nut (calendar_setpoint tnow s) = cal_nut s"
  "freq_nut (calendar_setpoint tnow s) = freq_nut s"
  "hw_calls (calendar_setpoint tnow s) = hw_calls s"
  "stepper_calls (calendar_setpoint tnow s) = stepper_calls s"
  by (simp_all add: calendar_setpoint_def stepper_calls_def split: option.splits)

lemma update_process_dosing:
  "nut_running_until (update_process tnow x s)
     = nut_running_until (dosing_window tnow (fire_doses tnow (calendar_setpoint tnow s)))"
  "nut_led_on (update_process tnow x s)
     = nut_led_on (dosing_window tnow (fire_doses tnow (calendar_setpoint tnow s)))"
  "last_min (update_process tnow x s)
     = last_min (dosing_window tnow (fire_doses tnow (calendar_setpoint tnow s)))"
  "manual_nut_on (update_process tnow x s)
     = manual_nut_on (dosing_window tnow (fire_doses tnow (calendar_setpoint tnow s)))"
  "stepper_calls (update_process tnow x s)
     = stepper_calls (dosing_window tnow (fire_doses tnow (calendar_setpoint tnow s)))"
  by (simp_all add: update_process_def)

lemma fire_doses_same_minute:
  "last_min s = Some (strftime_Ymd_HM tnow) \<Longrightarrow> fire_doses tnow s = s"
  by (simp add: fire_doses_def)

lemma fire_doses_last_min:
  "last_min (fire_doses tnow s) = Some (strftime_Ymd_HM tnow)"
  by (simp add: fire_doses_def Let_def)

lemma dosing_window_last_min [simp]:
  "last_min (dosing_window tnow s) = last_min s"
  by (simp add: dosing_window_def apply_nutricion_state_def Let_def)

lemma update_process_last_min:
  "last_min (update_process tnow x s) = Some (strftime_Ymd_HM tnow)"
  by (simp add: update_process_dosing fire_doses_last_min)

lemma step_last_min:
  "last_min s = Some m \<Longrightarrow> (\<forall>t x. c = Tick t x \<longrightarrow> strftime_Ymd_HM t = m) \<Longrightarrow>
   last_min (step s c) = Some m"
  by (cases c)
     (simp_all add: update_process_last_min forzar_frio_def forzar_caliente_def cerrar_todo_def
        stop_all_def toggle_manual_nut_def apply_nutricion_state_def Let_def)

lemma run_last_min:
  "last_min s = Some m \<Longrightarrow>
   (\<forall>c \<in> set cmds. \<forall>t x. c = Tick t x \<longrightarrow> strftime_Ymd_HM t = m) \<Longrightarrow>
   last_min (run s cmds) = Some m"
  unfolding run_def
  by (induction cmds arbitrary: s) (simp_all add: step_last_min)

section \<open>Doses of a minute, and the dosing window\<close>








lemma dosing_window_fields:
  "nut_running_until (dosing_window tnow s) =
     (case nut_running_until s of None \<Rightarrow> None | Some u \<Rightarrow> if tnow < u then Some u else None)"
  "nut_led_on (dosing_window tnow s) =
     ((case nut_running_until s of None \<Rightarrow> False | Some u \<Rightarrow> tnow < u) \<or> manual_nut_on s)"
  "manual_nut_on (dosing_window tnow s) = manual_nut_on s"
  "stepper_calls (dosing_window tnow s) =
     stepper_calls s @
       (if ((case nut_running_until s of None \<Rightarrow> False | Some u \<Rightarrow> tnow < u) \<or> manual_nut_on s)
           \<and> \<not> nut_led_on s then [Start_stepper (freq_nut s)]
        else if \<not> ((case nut_running_until s of None \<Rightarrow> False | Some u \<Rightarrow> tnow < u)
                   \<or> manual_nut_on s) \<and> nut_led_on s then [Stop_stepper]
        else [])"
  by (simp_all add: dosing_window_def apply_nutricion_state_def Let_def stepper_calls_def
      split: option.splits)


text \<open>
  Claim C7.  After a tick at \<open>t1\<close>, whatever the operator does and however many further
  ticks fall into the same calendar minute, a tick at \<open>t2\<close> in that minute does not start a
  dose again: the block that fires the doses of the minute leaves the state as it is,
  because \<open>last_min\<close> holds that minute; the window in force is kept, or cleared if it is
  over, and never set anew.  So the doses of a minute are started by at most one tick of
  that minute.  The stepper is started at the later tick only if the pump is off and the
  window or the manual toggle asks for it, and stopped only if the pump is on and neither
  does.
\<close>
theorem C7_dose_fires_once_per_minute:
  assumes "strftime_Ymd_HM t2 = strftime_Ymd_HM t1"
    and "\<forall>c \<in> set cmds. \<forall>t x. c = Tick t x \<longrightarrow> strftime_Ymd_HM t = strftime_Ymd_HM t1"
  shows "fire_doses t2 (calendar_setpoint t2 (run (update_process t1 x1 s) cmds))
           = calendar_setpoint t2 (run (update_process t1 x1 s) cmds)
       \<and> nut_running_until (update_process t2 x2 (run (update_process t1 x1 s) cmds))
           = (case nut_running_until (run (update_process t1 x1 s) cmds) of
                None \<Rightarrow> None
              | Some u \<Rightarrow> if t2 < u then Some u else None)
       \<and> stepper_calls (update_process t2 x2 (run (update_process t1 x1 s) cmds))
           = stepper_calls (run (update_process t1 x1 s) cmds) @
               (if ((case nut_running_until (run (update_process t1 x1 s) cmds) of
                       None \<Rightarrow> False | Some u \<Rightarrow> t2 < u)
                     \<or> manual_nut_on (run (update_process t1 x1 s) cmds))
                   \<and> \<not> nut_led_on (run (update_process t1 x1 s) cmds)
                  then [Start_stepper (freq_nut (run (update_process t1 x1 s) cmds))]
                else if \<not> ((case nut_running_until (run (update_process t1 x1 s) cmds) of
                              None \<Rightarrow> False | Some u \<Rightarrow> t2 < u)
                            \<or> manual_nut_on (run (update_process t1 x1 s) cmds))
                        \<and> nut_led_on (run (update_process t1 x1 s) cmds)
                  then [Stop_stepper]
                else [])
       \<and> last_min (update_process t2 x2 (run (update_process t1 x1 s) cmds))
           = Some (strftime_Ymd_HM t1)"
proof -
  have "last_min (run (update_process t1 x1 s) cmds) = Some (strftime_Ymd_HM t1)"
    using assms(2) by (intro run_last_min) (simp_all add: update_process_last_min)
  then have same: "last_min (calendar_setpoint t2 (run (update_process t1 x1 s) cmds))
      = Some (strftime_Ymd_HM t2)"
    using assms(1) by simp
  show ?thesis
    using assms(1)
    by (simp add: fire_doses_same_minute [OF same] update_process_last_min
        update_process_dosing dosing_window_fields)
qed

lemma clock_090000: "strftime_Ymd_HM 32400 = (0, ''09:00'')"
  by (simp add: strftime_Ymd_HM_def strftime_HM_def date_of_def hour_of_def minute_of_def
      two_digits_def)

lemma clock_090030: "strftime_Ymd_HM 32430 = (0, ''09:00'')"
  by (simp add: strftime_Ymd_HM_def strftime_HM_def date_of_def hour_of_def minute_of_def
      two_digits_def)

lemma dose_tick_090000:
  "update_process 32400 20
     ((new_panel 20 7 8)\<lparr>cal_nut := (\<lambda>d. None)(0 \<mapsto> [\<lparr>ev_time = ''09:00'', ev_value = 60\<rparr>])\<rparr>)
   = (new_panel 20 7 8)
       \<lparr>cal_nut := (\<lambda>d. None)(0 \<mapsto> [\<lparr>ev_time = ''09:00'', ev_value = 60\<rparr>]),
        nut_running_until := Some 32460, nut_led_on := True,
        last_min := Some (0, ''09:00''),
        hw_calls := [Start_stepper 8000, Start_stepper 8000,
                     Relay_off 7, Relay_off 8, Relay_off 7, Relay_off 8]\<rparr>"
  by (simp add: tick_defs new_panel_def Let_def)

lemma clock_090015: "strftime_Ymd_HM 32415 = (0, ''09:00'')"
  by (simp add: strftime_Ymd_HM_def strftime_HM_def date_of_def hour_of_def minute_of_def
      two_digits_def)

lemma dose_tick_090015:
  "update_process 32415 20
     ((new_panel 20 7 8)
       \<lparr>cal_nut := (\<lambda>d. None)(0 \<mapsto> [\<lparr>ev_time = ''09:00'', ev_value = 60\<rparr>]),
        nut_running_until := Some 32460, nut_led_on := True,
        last_min := Some (0, ''09:00''),
        hw_calls := [Start_stepper 8000, Start_stepper 8000,
                     Relay_off 7, Relay_off 8, Relay_off 7, Relay_off 8]\<rparr>)
   = (new_panel 20 7 8)
       \<lparr>cal_nut := (\<lambda>d. None)(0 \<mapsto> [\<lparr>ev_time = ''09:00'', ev_value = 60\<rparr>]),
        nut_running_until := Some 32460, nut_led_on := True,
        last_min := Some (0, ''09:00''),
        hw_calls := [Start_stepper 8000, Start_stepper 8000,
                     Relay_off 7, Relay_off 8, Relay_off 7, Relay_off 8,
                     Relay_off 7, Relay_off 8, Relay_off 7, Relay_off 8]\<rparr>"
  by (simp add: tick_defs new_panel_def Let_def)

text \<open>
  An event of 60 seconds at 09:00 and ticks at 09:00:00, 09:00:15 and 09:00:30 of that
  day: the window ends at 09:01:00 after the first tick and still does after the third,
  and the calls to the stepper are those of the first tick.
\<close>
theorem C7_two_ticks_witness:
  "strftime_Ymd_HM 32430 = strftime_Ymd_HM 32400
   \<and> strftime_Ymd_HM 32415 = strftime_Ymd_HM 32400
   \<and> nut_running_until
       (update_process 32400 20
         ((new_panel 20 7 8)\<lparr>cal_nut := (\<lambda>d. None)(0 \<mapsto> [\<lparr>ev_time = ''09:00'', ev_value = 60\<rparr>])\<rparr>))
      = Some 32460
   \<and> nut_running_until
       (update_process 32430 20 (run
         (update_process 32400 20
           ((new_panel 20 7 8)\<lparr>cal_nut := (\<lambda>d. None)(0 \<mapsto> [\<lparr>ev_time = ''09:00'', ev_value = 60\<rparr>])\<rparr>))
         [Tick 32415 20]))
      = Some 32460
   \<and> stepper_calls
       (update_process 32430 20 (run
         (update_process 32400 20
           ((new_panel 20 7 8)\<lparr>cal_nut := (\<lambda>d. None)(0 \<mapsto> [\<lparr>ev_time = ''09:00'', ev_value = 60\<rparr>])\<rparr>))
         [Tick 32415 20]))
      = stepper_calls
         (update_process 32400 20
           ((new_panel 20 7 8)\<lparr>cal_nut := (\<lambda>d. None)(0 \<mapsto> [\<lparr>ev_time = ''09:00'', ev_value = 60\<rparr>])\<rparr>))"
proof -
  have h: "strftime_Ymd_HM 32430 = strftime_Ymd_HM 32400"
    by (simp add: clock_090000 clock_090030)
  have h2: "\<forall>c \<in> set [Tick 32415 20]. \<forall>t x. c = Tick t x \<longrightarrow>
      strftime_Ymd_HM t = strftime_Ymd_HM 32400"
    by (simp add: clock_090000 clock_090015)
  have first: "nut_running_until
       (update_process 32400 20
         ((new_panel 20 7 8)\<lparr>cal_nut := (\<lambda>d. None)(0 \<mapsto> [\<lparr>ev_time = ''09:00'', ev_value = 60\<rparr>])\<rparr>))
      = Some 32460"
    unfolding dose_tick_090000 by simp
  have between: "nut_running_until (run
         (update_process 32400 20
           ((new_panel 20 7 8)\<lparr>cal_nut := (\<lambda>d. None)(0 \<mapsto> [\<lparr>ev_time = ''09:00'', ev_value = 60\<rparr>])\<rparr>))
         [Tick 32415 20]) = Some 32460"
    unfolding dose_tick_090000 run_def foldl.simps step.simps dose_tick_090015 by simp
  have led: "nut_led_on (run
         (update_process 32400 20
           ((new_panel 20 7 8)\<lparr>cal_nut := (\<lambda>d. None)(0 \<mapsto> [\<lparr>ev_time = ''09:00'', ev_value = 60\<rparr>])\<rparr>))
         [Tick 32415 20])"
    unfolding dose_tick_090000 run_def foldl.simps step.simps dose_tick_090015 by simp
  have calls: "stepper_calls (run
         (update_process 32400 20
           ((new_panel 20 7 8)\<lparr>cal_nut := (\<lambda>d. None)(0 \<mapsto> [\<lparr>ev_time = ''09:00'', ev_value = 60\<rparr>])\<rparr>))
         [Tick 32415 20])
      = stepper_calls
         (update_process 32400 20
           ((new_panel 20 7 8)\<lparr>cal_nut := (\<lambda>d. None)(0 \<mapsto> [\<lparr>ev_time = ''09:00'', ev_value = 60\<rparr>])\<rparr>))"
    unfolding dose_tick_090000 run_def foldl.simps step.simps dose_tick_090015
    by (simp add: stepper_calls_def)
  from C7_dose_fires_once_per_minute [OF h h2, of 20
      "(new_panel 20 7 8)\<lparr>cal_nut := (\<lambda>d. None)(0 \<mapsto> [\<lparr>ev_time = ''09:00'', ev_value = 60\<rparr>])\<rparr>" 20]
  show ?thesis using h h2 first between led calls by (simp add: clock_090000 clock_090015)
qed













end
